theory Spec2Isabelle
  imports Complex_Main "HOL-Library.Multiset" "HOL-Library.Option_ord"
begin

section \<open>Conventions of the embedding\<close>

text \<open>
  The two modules of the repository, \<^verbatim>\<open>scanner.py\<close> and \<^verbatim>\<open>trend.py\<close>, are embedded
  function by function.

  \<^item> A Python float is a \<open>real\<close>. The places where the code can produce a value that is
    not a number (\<^verbatim>\<open>None\<close>, NaN) carry a \<open>real option\<close>, \<open>None\<close> being that value.
    Rounding is not modelled.
  \<^item> An exception is a value of \<open>py_error\<close>; a function out of which an exception can
    escape returns \<open>py_error + 'a\<close>.
  \<^item> What the code gets from outside the repository (yfinance histories, the
    pandas\_ta indicator columns, the parser behind \<^verbatim>\<open>float(str)\<close>) is a parameter of
    the function that uses it.
  \<^item> A \<^verbatim>\<open>dict\<close> that the code iterates over is an association list in insertion order.
\<close>

datatype py_error = AttributeError | TypeError | ValueError | ProviderError

section \<open>scanner.py\<close>

subsection \<open>Data\<close>

text \<open>
  A row of the frame returned by \<^verbatim>\<open>yf.Ticker(t).history(...)\<close>. A cell may be missing
  (NaN); \<open>rExtra\<close> holds the cells of the columns the code never names.
\<close>

record raw_bar =
  rOpen :: "real option"
  rHigh :: "real option"
  rLow :: "real option"
  rClose :: "real option"
  rVolume :: "real option"
  rExtra :: "real option list"

text \<open>A row of \<^verbatim>\<open>DF\<close> after \<^verbatim>\<open>dropna()\<close>: every cell is a number.\<close>

record bar =
  Open :: real
  High :: real
  Low :: real
  Close :: real
  Volume :: real

text \<open>What \<^verbatim>\<open>history\<close> can do: raise, return \<^verbatim>\<open>None\<close>, or return a frame.\<close>

datatype history_result = HistRaises | HistNone | HistFrame "raw_bar list"

text \<open>
  The last row of the four columns that pandas\_ta appends (\<^verbatim>\<open>EMA_20\<close>, \<^verbatim>\<open>EMA_50\<close>,
  \<^verbatim>\<open>RSI\<close>, \<^verbatim>\<open>ADX_14\<close> copied to \<^verbatim>\<open>ADX\<close>).
\<close>

record ta_values =
  EMA_20 :: real
  EMA_50 :: real
  RSI :: real
  ADX :: real

datatype signal = BUY | WATCH | SKIP

text \<open>The dictionary returned by \<^verbatim>\<open>get_latest_indicators\<close>, key by key.\<close>

record signal_result =
  ticker :: string
  current_price :: real
  open_price :: real
  high :: real
  low :: real
  price_change_pct :: "real option"
  volume_ratio :: real
  rsi :: real
  ema_20 :: real
  ema_50 :: real
  adx :: real
  is_uptrend :: bool
  ema_bullish :: bool
  strong_trend :: bool
  signal :: signal
  signal_score :: int

subsection \<open>get\_latest\_indicators\<close>

text \<open>\<^verbatim>\<open>DF.dropna()\<close>: a row with a missing cell in any column is dropped.\<close>

definition row_complete :: "raw_bar \<Rightarrow> bool" where
  "row_complete r \<longleftrightarrow>
     rOpen r \<noteq> None \<and> rHigh r \<noteq> None \<and> rLow r \<noteq> None \<and> rClose r \<noteq> None \<and>
     rVolume r \<noteq> None \<and> list_all (\<lambda>c. c \<noteq> None) (rExtra r)"

definition to_bar :: "raw_bar \<Rightarrow> bar" where
  "to_bar r = \<lparr>Open = the (rOpen r), High = the (rHigh r), Low = the (rLow r),
              Close = the (rClose r), Volume = the (rVolume r)\<rparr>"

definition dropna :: "raw_bar list \<Rightarrow> bar list" where
  "dropna rows = map to_bar (filter row_complete rows)"

text \<open>\<^verbatim>\<open>DF['Volume'].tail(20).mean()\<close> on a frame that is not empty.\<close>

definition tail_df :: "nat \<Rightarrow> 'a list \<Rightarrow> 'a list" where
  "tail_df n xs = drop (length xs - n) xs"

definition mean :: "real list \<Rightarrow> real" where
  "mean xs = sum_list xs / real (length xs)"

text \<open>
  Lines 46 to 59: the three booleans, \<^verbatim>\<open>signal_score = sum([...])\<close> and the
  \<^verbatim>\<open>if\<close>/\<^verbatim>\<open>elif\<close>/\<^verbatim>\<open>else\<close> chain. The result is
  \<open>(is_uptrend, ema_bullish, strong_trend, signal_score, signal)\<close>.
\<close>

definition trading_signals :: "ta_values \<Rightarrow> bool \<times> bool \<times> bool \<times> int \<times> signal" where
  "trading_signals latest =
     (let is_uptrend = RSI latest > 50;
          ema_bullish = EMA_20 latest > EMA_50 latest;
          strong_trend = ADX latest > 25;
          signal_score = sum_list (map of_bool [is_uptrend, ema_bullish, strong_trend]);
          signal = (if signal_score \<ge> 2 \<and> is_uptrend then BUY
                    else if signal_score \<ge> 2 then WATCH
                    else SKIP)
      in (is_uptrend, ema_bullish, strong_trend, signal_score, signal))"

text \<open>
  \<^verbatim>\<open>price_change_pct\<close> divides two numpy floats: a zero previous close gives an infinity
  or NaN (\<open>None\<close> here), not an exception.
\<close>

definition np_pct :: "real \<Rightarrow> real \<Rightarrow> real option" where
  "np_pct latest_close prev_close =
     (if prev_close = 0 then None else Some ((latest_close - prev_close) / prev_close * 100))"

text \<open>
  The whole function. \<open>history\<close> is the yfinance call of line 18 and \<open>ta\<close> the four
  pandas\_ta calls of lines 29 to 36 (\<open>None\<close> when one of them raises or leaves its
  column out, which the \<^verbatim>\<open>except\<close> of line 80 turns into \<^verbatim>\<open>None\<close>).
\<close>

definition get_latest_indicators ::
  "(string \<Rightarrow> history_result) \<Rightarrow> (bar list \<Rightarrow> ta_values option) \<Rightarrow> string \<Rightarrow> signal_result option"
where
  "get_latest_indicators history ta tkr =
     (case history tkr of
        HistRaises \<Rightarrow> None
      | HistNone \<Rightarrow> None
      | HistFrame data \<Rightarrow>
          if length data = 0 then None
          else
            let DF = dropna data in
            if length DF < 50 then None
            else
              (case ta DF of
                 None \<Rightarrow> None
               | Some ind \<Rightarrow>
                   let latest = DF ! (length DF - 1);
                       prev = DF ! (length DF - 2);
                       vol_mean = mean (map Volume (tail_df 20 DF));
                       (up, bull, strong, score, sig) = trading_signals ind
                   in Some \<lparr>ticker = tkr,
                            current_price = Close latest,
                            open_price = Open latest,
                            high = High latest,
                            low = Low latest,
                            price_change_pct = np_pct (Close latest) (Close prev),
                            volume_ratio = (if vol_mean > 0 then Volume latest / vol_mean else 0),
                            rsi = RSI ind,
                            ema_20 = EMA_20 ind,
                            ema_50 = EMA_50 ind,
                            adx = ADX ind,
                            is_uptrend = up,
                            ema_bullish = bull,
                            strong_trend = strong,
                            signal = sig,
                            signal_score = score\<rparr>))"

subsection \<open>scan\_stocks\<close>

text \<open>
  The loop of \<^verbatim>\<open>scan_stocks\<close> with its accumulator \<^verbatim>\<open>results\<close>. The test
  \<^verbatim>\<open>if data:\<close> fails only for \<^verbatim>\<open>None\<close>: the dictionary is never empty.
\<close>

fun scan_loop ::
  "(string \<Rightarrow> history_result) \<Rightarrow> (bar list \<Rightarrow> ta_values option) \<Rightarrow> string list \<Rightarrow>
   signal_result list \<Rightarrow> signal_result list"
where
  "scan_loop history ta [] results = results"
| "scan_loop history ta (tkr # rest) results =
     (case get_latest_indicators history ta tkr of
        None \<Rightarrow> scan_loop history ta rest results
      | Some data \<Rightarrow> scan_loop history ta rest (results @ [data]))"

definition scan_stocks ::
  "(string \<Rightarrow> history_result) \<Rightarrow> (bar list \<Rightarrow> ta_values option) \<Rightarrow> string list \<Rightarrow> signal_result list"
where
  "scan_stocks history ta stock_list = scan_loop history ta stock_list []"

subsection \<open>display\_scan\_results\<close>

text \<open>
  Python's \<^verbatim>\<open>sorted(xs, key=k, reverse=True)\<close> is a stable descending sort: rows with equal
  keys keep their input order. \<open>sort_key\<close> is a stable ascending insertion sort, so
  sorting on the negated key is the same function.
\<close>

definition sorted_reverse :: "('a \<Rightarrow> 'k::{linorder, uminus}) \<Rightarrow> 'a list \<Rightarrow> 'a list" where
  "sorted_reverse k xs = sort_key (\<lambda>x. - k x) xs"

text \<open>
  What the function prints and what it returns. A printed table is the list of the
  results behind its rows, top to bottom (each cell is a format of a field of that
  result); a table that is not printed is the empty list.
\<close>

record display =
  buy_table :: "signal_result list"
  watch_table :: "signal_result list"
  returned :: "signal_result list \<times> signal_result list"

definition display_scan_results :: "signal_result list \<Rightarrow> display" where
  "display_scan_results results =
     (let buy_signals = filter (\<lambda>r. signal r = BUY) results;
          watch_signals = filter (\<lambda>r. signal r = WATCH) results
      in \<lparr>buy_table = (if buy_signals \<noteq> [] then sorted_reverse rsi buy_signals else []),
          watch_table = (if watch_signals \<noteq> [] then sorted_reverse signal_score watch_signals else []),
          returned = (buy_signals, watch_signals)\<rparr>)"

section \<open>trend.py\<close>

subsection \<open>Reference quotes\<close>

text \<open>
  \<^verbatim>\<open>pct_change\<close>: both arguments are Python floats at every call, so the only exception
  the \<^verbatim>\<open>try\<close> can catch is the ZeroDivisionError of a zero \<^verbatim>\<open>prev\<close>.
\<close>

definition pct_change :: "real \<Rightarrow> real \<Rightarrow> real option" where
  "pct_change cur prev = (if prev = 0 then None else Some ((cur - prev) / prev * 100))"

text \<open>The dictionary built at lines 66/67 and 77/78.\<close>

record quote =
  q_symbol :: string
  q_last_close :: real
  q_latest :: real
  q_pct :: "real option"

text \<open>
  Lines 64 to 67 (and 75 to 78) on the \<^verbatim>\<open>Close\<close> column of a history that is not
  empty.
\<close>

definition quote_of :: "string \<Rightarrow> real list \<Rightarrow> quote" where
  "quote_of smb closes =
     (let last_close = (if length closes \<ge> 2 then closes ! (length closes - 2)
                        else closes ! (length closes - 1));
          latest = closes ! (length closes - 1)
      in \<lparr>q_symbol = smb, q_last_close = last_close, q_latest = latest,
          q_pct = pct_change latest last_close\<rparr>)"

text \<open>
  \<open>hist\<close> is \<^verbatim>\<open>yf.Ticker(sym).history(period="2d")\<close>, reduced to its \<^verbatim>\<open>Close\<close>
  column. Nothing catches what it raises.
\<close>

fun fetch_loop ::
  "(string \<Rightarrow> py_error + real list) \<Rightarrow> (string \<times> string) list \<Rightarrow>
   (string \<times> quote option) list \<Rightarrow> py_error + (string \<times> quote option) list"
where
  "fetch_loop hist [] out = Inr out"
| "fetch_loop hist ((name, smb) # rest) out =
     (case hist smb of
        Inl e \<Rightarrow> Inl e
      | Inr closes \<Rightarrow>
          if closes = [] then fetch_loop hist rest (out @ [(name, None)])
          else fetch_loop hist rest (out @ [(name, Some (quote_of smb closes))]))"

definition fetch_yf_symbols ::
  "(string \<Rightarrow> py_error + real list) \<Rightarrow> (string \<times> string) list \<Rightarrow>
   py_error + (string \<times> quote option) list"
where
  "fetch_yf_symbols hist symbols = fetch_loop hist symbols []"

definition INDIA_VIX :: string where
  "INDIA_VIX = ''^INDIAVIX''"

definition fetch_india_vix :: "(string \<Rightarrow> py_error + real list) \<Rightarrow> py_error + quote option" where
  "fetch_india_vix hist =
     (case hist INDIA_VIX of
        Inl e \<Rightarrow> Inl e
      | Inr closes \<Rightarrow> if closes = [] then Inr None else Inr (Some (quote_of INDIA_VIX closes)))"

subsection \<open>score\_market\<close>

text \<open>
  The value of \<^verbatim>\<open>scrape_gift_nifty\<close>: \<^verbatim>\<open>None\<close> or a dictionary that may hold
  \<^verbatim>\<open>"value"\<close>.
\<close>

record gift_info =
  g_value :: "real option"

text \<open>
  One constructor for each f-string appended to \<^verbatim>\<open>details\<close>, with the values it
  formats.
\<close>

datatype detail =
    IndexUp string real
  | IndexDown string real
  | GiftNote real
  | VixUp real
  | VixDown real

text \<open>The loop over \<^verbatim>\<open>us_data.items()\<close>, lines 136 to 143.\<close>

fun us_loop :: "(string \<times> quote option) list \<Rightarrow> real \<times> detail list \<Rightarrow> real \<times> detail list" where
  "us_loop [] (score, details) = (score, details)"
| "us_loop ((name, info) # rest) (score, details) =
     (case info of
        None \<Rightarrow> us_loop rest (score, details)
      | Some i \<Rightarrow>
          (case q_pct i of
             None \<Rightarrow> us_loop rest (score, details)
           | Some p \<Rightarrow>
               if p > 0 then us_loop rest (score + 1, details @ [IndexUp name p])
               else us_loop rest (score - 1, details @ [IndexDown name p])))"

text \<open>The loop over \<^verbatim>\<open>asia_data.items()\<close>, lines 144 to 151.\<close>

fun asia_loop :: "(string \<times> quote option) list \<Rightarrow> real \<times> detail list \<Rightarrow> real \<times> detail list" where
  "asia_loop [] (score, details) = (score, details)"
| "asia_loop ((name, info) # rest) (score, details) =
     (case info of
        None \<Rightarrow> asia_loop rest (score, details)
      | Some i \<Rightarrow>
          (case q_pct i of
             None \<Rightarrow> asia_loop rest (score, details)
           | Some p \<Rightarrow>
               if p > 0 then asia_loop rest (score + 0.5, details @ [IndexUp name p])
               else asia_loop rest (score - 0.5, details @ [IndexDown name p])))"

text \<open>Lines 153 to 156: \<^verbatim>\<open>gift.get("value")\<close> is true for a value that is not zero.\<close>

definition gift_step :: "gift_info option \<Rightarrow> real \<times> detail list \<Rightarrow> real \<times> detail list" where
  "gift_step gift sd =
     (case gift of
        None \<Rightarrow> sd
      | Some g \<Rightarrow>
          (case g_value g of
             None \<Rightarrow> sd
           | Some v \<Rightarrow> if v \<noteq> 0 then (fst sd, snd sd @ [GiftNote v]) else sd))"

text \<open>Lines 157 to 163.\<close>

definition vix_step :: "quote option \<Rightarrow> real \<times> detail list \<Rightarrow> real \<times> detail list" where
  "vix_step vix sd =
     (case vix of
        None \<Rightarrow> sd
      | Some v \<Rightarrow>
          (case q_pct v of
             None \<Rightarrow> sd
           | Some p \<Rightarrow>
               if p > 3.0 then (fst sd - 1.5, snd sd @ [VixUp p])
               else if p < - 2.0 then (fst sd + 0.5, snd sd @ [VixDown p])
               else sd))"

definition score_market ::
  "(string \<times> quote option) list \<Rightarrow> (string \<times> quote option) list \<Rightarrow> gift_info option \<Rightarrow>
   quote option \<Rightarrow> real \<times> detail list"
where
  "score_market us_data asia_data gift vix =
     vix_step vix (gift_step gift (asia_loop asia_data (us_loop us_data (0, []))))"

text \<open>Line 266 of \<^verbatim>\<open>run_scan\<close>.\<close>

datatype bias_label = BULLISH | BEARISH | NEUTRAL

definition bias :: "real \<Rightarrow> bias_label" where
  "bias score = (if score > 1.0 then BULLISH else (if score < - 1.0 then BEARISH else NEUTRAL))"

subsection \<open>analyze\_preopen\_and\_pick\_stocks\<close>

text \<open>
  The value of \<^verbatim>\<open>fetch_preopen_fo\<close>: \<^verbatim>\<open>None\<close> or whatever \<^verbatim>\<open>r.json()\<close> decodes.
  An object keeps the order of its keys, which are distinct.
\<close>

datatype json =
    JNull
  | JBool bool
  | JNum real
  | JStr string
  | JList "json list"
  | JDict "(string \<times> json) list"

text \<open>Python's truth value of a decoded value.\<close>

fun truthy :: "json \<Rightarrow> bool" where
  "truthy JNull = False"
| "truthy (JBool b) = b"
| "truthy (JNum x) = (x \<noteq> 0)"
| "truthy (JStr s) = (s \<noteq> [])"
| "truthy (JList xs) = (xs \<noteq> [])"
| "truthy (JDict kvs) = (kvs \<noteq> [])"

text \<open>\<^verbatim>\<open>a or b\<close>.\<close>

definition py_or :: "json \<Rightarrow> json \<Rightarrow> json" where
  "py_or a b = (if truthy a then a else b)"

text \<open>\<^verbatim>\<open>r.get(k)\<close> on a dictionary.\<close>

definition dict_get :: "(string \<times> json) list \<Rightarrow> string \<Rightarrow> json" where
  "dict_get kvs k = (case map_of kvs k of None \<Rightarrow> JNull | Some v \<Rightarrow> v)"

text \<open>
  \<^verbatim>\<open>float(v)\<close>. \<open>parse\<close> is Python's reading of a string as a float, \<open>None\<close> when
  it raises ValueError. A number converts to itself: an integer beyond the range of a
  float, on which \<^verbatim>\<open>float\<close> raises OverflowError and the row is skipped, is not among
  the numbers of the model.
\<close>

fun py_float :: "(string \<Rightarrow> real option) \<Rightarrow> json \<Rightarrow> py_error + real" where
  "py_float parse (JNum x) = Inr x"
| "py_float parse (JBool b) = Inr (if b then 1 else 0)"
| "py_float parse (JStr s) = (case parse s of None \<Rightarrow> Inl ValueError | Some x \<Rightarrow> Inr x)"
| "py_float parse JNull = Inl TypeError"
| "py_float parse (JList xs) = Inl TypeError"
| "py_float parse (JDict kvs) = Inl TypeError"

text \<open>The dictionary \<^verbatim>\<open>rowscore\<close> (and the one the fallback appends).\<close>

record candidate =
  symbol :: json
  prev_close :: real
  preopen :: real
  gap_pct :: "real option"
  qty :: "real option"

text \<open>Lines 186 to 190: the first value of the dictionary that is a list.\<close>

fun first_list_value :: "json list \<Rightarrow> json list" where
  "first_list_value [] = []"
| "first_list_value (JList v # vs) = v"
| "first_list_value (_ # vs) = first_list_value vs"

text \<open>Lines 177 to 192: the rows of a snapshot that is true.\<close>

definition snapshot_rows :: "json \<Rightarrow> json list" where
  "snapshot_rows preopen_data =
     (case preopen_data of
        JDict kvs \<Rightarrow>
          (case map_of kvs ''data'' of
             Some (JList v) \<Rightarrow> v
           | _ \<Rightarrow>
               (case map_of kvs ''result'' of
                  Some (JList v) \<Rightarrow> v
                | _ \<Rightarrow> first_list_value (map snd kvs)))
      | JList v \<Rightarrow> v
      | _ \<Rightarrow> [])"

text \<open>
  Lines 194 to 213. \<^verbatim>\<open>r.get\<close> of line 196 is outside the \<^verbatim>\<open>try\<close>: a row that is not
  a dictionary raises AttributeError out of the function. An exception of one of the
  three \<^verbatim>\<open>float\<close> calls skips the row.
\<close>

fun row_loop ::
  "(string \<Rightarrow> real option) \<Rightarrow> json list \<Rightarrow> candidate list \<Rightarrow> py_error + candidate list"
where
  "row_loop parse [] candidates = Inr candidates"
| "row_loop parse (r # rows) candidates =
     (case r of
        JDict kvs \<Rightarrow>
          (let smb = py_or (py_or (dict_get kvs ''symbol'') (dict_get kvs ''scrip''))
                       (dict_get kvs ''name'')
           in case py_float parse
                (py_or (py_or (py_or (dict_get kvs ''prev_close'') (dict_get kvs ''prevClose''))
                         (dict_get kvs ''previousClose'')) (JNum 0)) of
             Inl e \<Rightarrow> row_loop parse rows candidates
           | Inr prev \<Rightarrow>
               (case py_float parse
                  (py_or (py_or (py_or (dict_get kvs ''open'') (dict_get kvs ''preopen_price''))
                           (dict_get kvs ''preopen'')) (JNum prev)) of
                  Inl e \<Rightarrow> row_loop parse rows candidates
                | Inr op \<Rightarrow>
                    (case py_float parse
                       (py_or (py_or (py_or (dict_get kvs ''qty'') (dict_get kvs ''quantity''))
                                (dict_get kvs ''tradedQty'')) (JNum 0)) of
                       Inl e \<Rightarrow> row_loop parse rows candidates
                     | Inr q \<Rightarrow>
                         if \<not> truthy smb then row_loop parse rows candidates
                         else
                           let gap = (if prev > 0 then pct_change op prev else Some 0)
                           in row_loop parse rows
                                (candidates @
                                 [\<lparr>symbol = smb, prev_close = prev, preopen = op,
                                   gap_pct = gap, qty = Some q\<rparr>]))))
      | _ \<Rightarrow> Inl AttributeError)"

text \<open>
  Lines 196 to 212 for one row that is a mapping: the candidate the row appends, or
  \<open>None\<close> when the row is skipped (one of the three \<^verbatim>\<open>float\<close> calls raises, or no
  symbol is found).
\<close>

definition row_candidate :: "(string \<Rightarrow> real option) \<Rightarrow> (string \<times> json) list \<Rightarrow> candidate option" where
  "row_candidate parse kvs =
     (let smb = py_or (py_or (dict_get kvs ''symbol'') (dict_get kvs ''scrip''))
                  (dict_get kvs ''name'')
      in case py_float parse
           (py_or (py_or (py_or (dict_get kvs ''prev_close'') (dict_get kvs ''prevClose''))
                    (dict_get kvs ''previousClose'')) (JNum 0)) of
        Inl e \<Rightarrow> None
      | Inr prev \<Rightarrow>
          (case py_float parse
             (py_or (py_or (py_or (dict_get kvs ''open'') (dict_get kvs ''preopen_price''))
                      (dict_get kvs ''preopen'')) (JNum prev)) of
             Inl e \<Rightarrow> None
           | Inr op \<Rightarrow>
               (case py_float parse
                  (py_or (py_or (py_or (dict_get kvs ''qty'') (dict_get kvs ''quantity''))
                           (dict_get kvs ''tradedQty'')) (JNum 0)) of
                  Inl e \<Rightarrow> None
                | Inr q \<Rightarrow>
                    if \<not> truthy smb then None
                    else Some \<lparr>symbol = smb, prev_close = prev, preopen = op,
                               gap_pct = (if prev > 0 then pct_change op prev else Some 0),
                               qty = Some q\<rparr>)))"

text \<open>Lines 173 to 213: the candidates of the snapshot.\<close>

definition snapshot_candidates ::
  "(string \<Rightarrow> real option) \<Rightarrow> json \<Rightarrow> py_error + candidate list"
where
  "snapshot_candidates parse preopen_data =
     (if truthy preopen_data then row_loop parse (snapshot_rows preopen_data) [] else Inr [])"

text \<open>\<^verbatim>\<open>s.replace(".NS", "")\<close>.\<close>

fun replace_NS :: "string \<Rightarrow> string" where
  "replace_NS [] = []"
| "replace_NS (c # rest) =
     (if take 3 (c # rest) = ''.NS'' then replace_NS (drop 2 rest) else c # replace_NS rest)"

text \<open>
  Lines 216 to 233. \<open>hist\<close> is the \<^verbatim>\<open>Close\<close> column of the two-day history of an
  instrument, or what the provider raises; the \<^verbatim>\<open>except\<close> skips the instrument.
\<close>

fun pool_loop ::
  "(string \<Rightarrow> py_error + real list) \<Rightarrow> string list \<Rightarrow> candidate list \<Rightarrow> candidate list"
where
  "pool_loop hist [] candidates = candidates"
| "pool_loop hist (s # pool) candidates =
     (case hist s of
        Inl e \<Rightarrow> pool_loop hist pool candidates
      | Inr closes \<Rightarrow>
          if length closes < 2 then pool_loop hist pool candidates
          else
            let prev = closes ! (length closes - 2);
                latest = closes ! (length closes - 1);
                gap = pct_change latest prev
            in pool_loop hist pool
                 (candidates @
                  [\<lparr>symbol = JStr (replace_NS s), prev_close = prev, preopen = latest,
                    gap_pct = gap, qty = None\<rparr>]))"

text \<open>
  The frame after lines 240 to 247: the candidate's columns and the three computed ones.
  A cell that is NaN is \<open>None\<close>.
\<close>

record ranked = candidate +
  abs_gap :: "real option"
  qty_norm :: "real option"
  score :: "real option"

text \<open>
  Lines 242 to 245. \<^verbatim>\<open>min()\<close> and \<^verbatim>\<open>max()\<close> skip the missing cells of the column;
  a missing cell stays missing. When no cell is present the column is the constant 0.
  Over the reals the quotient of the maximal quantity is below 1 whenever the quantities
  differ; in double precision \<open>max - min + 1e-9\<close> rounds to \<open>max - min\<close> once the range
  reaches \<open>2^24\<close> and the quotient is then exactly 1. The properties below state the
  bound as \<open>\<le> 1\<close>, which holds for both.
\<close>

definition qty_norm_of :: "real option list \<Rightarrow> real option \<Rightarrow> real option" where
  "qty_norm_of col q =
     (let present = map the (filter (\<lambda>x. x \<noteq> None) col)
      in if present \<noteq> []
         then map_option
                (\<lambda>x. (x - Min (set present)) / (Max (set present) - Min (set present) + 1 / 10 ^ 9)) q
         else Some 0.0)"

text \<open>Line 247: the sum of the two products; NaN in either column gives NaN.\<close>

definition score_of :: "real option \<Rightarrow> real option \<Rightarrow> real option" where
  "score_of a n = (case (a, n) of (Some x, Some y) \<Rightarrow> Some (x * 0.7 + y * 0.3) | _ \<Rightarrow> None)"

definition score_rows :: "candidate list \<Rightarrow> ranked list" where
  "score_rows candidates =
     map (\<lambda>c. \<lparr>symbol = symbol c, prev_close = prev_close c, preopen = preopen c,
                gap_pct = gap_pct c, qty = qty c,
                abs_gap = map_option abs (gap_pct c),
                qty_norm = qty_norm_of (map qty candidates) (qty c),
                score = score_of (map_option abs (gap_pct c))
                          (qty_norm_of (map qty candidates) (qty c))\<rparr>)
         candidates"

text \<open>
  Line 248, \<^verbatim>\<open>sort_values('score', ascending=False)\<close>: the rows with a score in
  descending order, then the rows whose score is NaN. pandas does not fix the order of
  rows with equal scores; here they keep the order of the frame.
\<close>

definition sort_values_desc :: "ranked list \<Rightarrow> ranked list" where
  "sort_values_desc df =
     sort_key (\<lambda>r. - the (score r)) (filter (\<lambda>r. score r \<noteq> None) df) @
     filter (\<lambda>r. score r = None) df"

text \<open>\<^verbatim>\<open>df.head(n)\<close>: the first \<open>n\<close> rows, or all but the last \<open>-n\<close> for a negative \<open>n\<close>.\<close>

definition head_df :: "int \<Rightarrow> 'a list \<Rightarrow> 'a list" where
  "head_df n xs = (if n \<ge> 0 then take (nat n) xs else take (length xs - nat (- n)) xs)"

text \<open>
  Lines 236 to 251. A \<^verbatim>\<open>gap_pct\<close> column in which every cell is \<^verbatim>\<open>None\<close> keeps the
  dtype \<^verbatim>\<open>object\<close>, and \<^verbatim>\<open>abs()\<close> raises TypeError on it; a column with at least
  one number turns its \<^verbatim>\<open>None\<close> cells into NaN.
\<close>

definition rank_candidates :: "candidate list \<Rightarrow> int \<Rightarrow> py_error + ranked list" where
  "rank_candidates candidates top_n =
     (if candidates = [] then Inr []
      else if list_all (\<lambda>c. gap_pct c = None) candidates then Inl TypeError
      else Inr (head_df top_n (sort_values_desc (score_rows candidates))))"

definition analyze_preopen_and_pick_stocks ::
  "(string \<Rightarrow> py_error + real list) \<Rightarrow> (string \<Rightarrow> real option) \<Rightarrow> json \<Rightarrow> string list \<Rightarrow> int \<Rightarrow>
   py_error + ranked list"
where
  "analyze_preopen_and_pick_stocks hist parse preopen_data pool top_n =
     (case snapshot_candidates parse preopen_data of
        Inl e \<Rightarrow> Inl e
      | Inr candidates \<Rightarrow>
          rank_candidates (if candidates = [] then pool_loop hist pool [] else candidates) top_n)"

text \<open>The defaults of the signature, which are also the arguments of line 272.\<close>

definition DEFAULT_STOCK_POOL :: "string list" where
  "DEFAULT_STOCK_POOL =
     [''RELIANCE.NS'', ''TCS.NS'', ''HDFCBANK.NS'', ''INFY.NS'', ''ICICIBANK.NS'',
      ''HINDUNILVR.NS'', ''SBIN.NS'', ''BHARTIARTL.NS'', ''ITC.NS'', ''KOTAKBANK.NS'',
      ''LT.NS'', ''AXISBANK.NS'', ''BAJFINANCE.NS'', ''WIPRO.NS'', ''ASIANPAINT.NS'',
      ''MARUTI.NS'', ''TITAN.NS'', ''SUNPHARMA.NS'', ''ULTRACEMCO.NS'', ''NESTLEIND.NS'',
      ''HCLTECH.NS'', ''TATAMOTORS.NS'', ''POWERGRID.NS'', ''NTPC.NS'', ''TECHM.NS'',
      ''BAJAJFINSV.NS'', ''ONGC.NS'', ''M&M.NS'', ''ADANIPORTS.NS'', ''DIVISLAB.NS'']"

definition pick_stocks_default ::
  "(string \<Rightarrow> py_error + real list) \<Rightarrow> (string \<Rightarrow> real option) \<Rightarrow> json \<Rightarrow> py_error + ranked list"
where
  "pick_stocks_default hist parse preopen_data =
     analyze_preopen_and_pick_stocks hist parse preopen_data DEFAULT_STOCK_POOL 6"

subsection \<open>Concrete inputs\<close>

text \<open>A provider with no history for any instrument and a parser that reads no string.\<close>

definition no_history :: "string \<Rightarrow> py_error + real list" where
  "no_history s = Inl ProviderError"

definition no_parse :: "string \<Rightarrow> real option" where
  "no_parse s = None"



subsection \<open>The scoring rule in the words of the specification\<close>

text \<open>
  The contribution of one quote is \<open>+w\<close> when its change is positive and \<open>-w\<close>
  otherwise, and nothing (no score, no detail) when the quote or its change is
  unavailable; the volatility index gives \<open>-1.5\<close> above 3, else \<open>+0.5\<close> below
  \<open>-2\<close>, else nothing; the auxiliary value gives a detail and no score.
\<close>

definition spec_quote_score :: "real \<Rightarrow> quote option \<Rightarrow> real" where
  "spec_quote_score w info =
     (case info of
        None \<Rightarrow> 0
      | Some i \<Rightarrow> (case q_pct i of None \<Rightarrow> 0 | Some p \<Rightarrow> if p > 0 then w else - w))"

definition spec_quote_detail :: "string \<Rightarrow> quote option \<Rightarrow> detail list" where
  "spec_quote_detail name info =
     (case info of
        None \<Rightarrow> []
      | Some i \<Rightarrow>
          (case q_pct i of
             None \<Rightarrow> []
           | Some p \<Rightarrow> if p > 0 then [IndexUp name p] else [IndexDown name p]))"

definition spec_vix_score :: "quote option \<Rightarrow> real" where
  "spec_vix_score vix =
     (case vix of
        None \<Rightarrow> 0
      | Some v \<Rightarrow>
          (case q_pct v of
             None \<Rightarrow> 0
           | Some p \<Rightarrow> if p > 3 then - 1.5 else if p < - 2 then 0.5 else 0))"

definition spec_vix_detail :: "quote option \<Rightarrow> detail list" where
  "spec_vix_detail vix =
     (case vix of
        None \<Rightarrow> []
      | Some v \<Rightarrow>
          (case q_pct v of
             None \<Rightarrow> []
           | Some p \<Rightarrow> if p > 3 then [VixUp p] else if p < - 2 then [VixDown p] else []))"

definition spec_gift_detail :: "gift_info option \<Rightarrow> detail list" where
  "spec_gift_detail gift =
     (case gift of
        None \<Rightarrow> []
      | Some g \<Rightarrow> (case g_value g of None \<Rightarrow> [] | Some v \<Rightarrow> if v \<noteq> 0 then [GiftNote v] else []))"

section \<open>Properties of the scanner\<close>

subsection \<open>Signal classification, absence and aggregation\<close>

text \<open>
  C1. For every indicator snapshot the three booleans are \<open>RSI > 50\<close>,
  \<open>EMA_20 > EMA_50\<close> and \<open>ADX > 25\<close>; the score is the number of true ones, between 0
  and 3; the signal is BUY when the score is at least 2 and the trend is up, else WATCH
  when the score is at least 2, else SKIP. A bullish EMA and a strong trend with
  \<open>RSI \<le> 50\<close> give score 2 and WATCH.
\<close>

theorem trading_signals_classification:
  "trading_signals s = (up, bull, strong, sc, sig) \<Longrightarrow>
     up = (RSI s > 50) \<and> bull = (EMA_20 s > EMA_50 s) \<and> strong = (ADX s > 25) \<and>
     sc = int (length (filter id [up, bull, strong])) \<and> 0 \<le> sc \<and> sc \<le> 3 \<and>
     sig = (if sc \<ge> 2 \<and> up then BUY else if sc \<ge> 2 then WATCH else SKIP) \<and>
     (bull \<and> strong \<and> RSI s \<le> 50 \<longrightarrow> sc = 2 \<and> sig = WATCH)"
  by (auto simp: trading_signals_def Let_def)

theorem trading_signals_classification_witness:
  "trading_signals \<lparr>EMA_20 = 2, EMA_50 = 1, RSI = 40, ADX = 30\<rparr> = (False, True, True, 2, WATCH) \<and>
   RSI \<lparr>EMA_20 = 2, EMA_50 = 1, RSI = 40, ADX = 30\<rparr> \<le> 50"
  using trading_signals_classification
    [of "\<lparr>EMA_20 = 2, EMA_50 = 1, RSI = 40, ADX = 30\<rparr>" False True True 2 WATCH]
  by (simp add: trading_signals_def)

text \<open>
  The booleans, the score and the signal of a result are those of \<open>trading_signals\<close> on
  the indicator values the result carries.
\<close>

lemma ta_values_eta:
  "\<lparr>EMA_20 = EMA_20 x, EMA_50 = EMA_50 x, RSI = RSI x, ADX = ADX x\<rparr> = x"
  by (cases x) simp

lemma result_signals:
  "get_latest_indicators history ta tkr = Some r \<Longrightarrow>
   trading_signals \<lparr>EMA_20 = ema_20 r, EMA_50 = ema_50 r, RSI = rsi r, ADX = adx r\<rparr> =
     (is_uptrend r, ema_bullish r, strong_trend r, signal_score r, signal r)"
  by (auto simp: get_latest_indicators_def Let_def ta_values_eta
           split: history_result.splits if_splits option.splits prod.splits)

text \<open>
  C5. When the provider raises, returns nothing, returns an empty series, or returns a
  series with fewer than 50 rows that survive \<^verbatim>\<open>dropna\<close>, the result is absent: no
  snapshot is built, whatever the indicator library would compute.
\<close>

theorem insufficient_history_absent:
  "history tkr = HistRaises \<or> history tkr = HistNone \<or>
   (\<exists>data. history tkr = HistFrame data \<and> (data = [] \<or> length (filter row_complete data) < 50))
   \<Longrightarrow> get_latest_indicators history ta tkr = None"
  by (auto simp: get_latest_indicators_def dropna_def Let_def)

theorem insufficient_history_absent_witness:
  "get_latest_indicators
     (\<lambda>t. HistFrame [\<lparr>rOpen = Some 1, rHigh = Some 2, rLow = Some 1, rClose = None,
                          rVolume = Some 10, rExtra = []\<rparr>])
     (\<lambda>d. Some \<lparr>EMA_20 = 2, EMA_50 = 1, RSI = 60, ADX = 30\<rparr>) ''TCS.NS'' = None"
  using insufficient_history_absent
    [of "\<lambda>t. HistFrame [\<lparr>rOpen = Some 1, rHigh = Some 2, rLow = Some 1, rClose = None,
                               rVolume = Some 10, rExtra = []\<rparr>]" "''TCS.NS''"
        "\<lambda>d. Some \<lparr>EMA_20 = 2, EMA_50 = 1, RSI = 60, ADX = 30\<rparr>"]
  by (simp add: row_complete_def)

lemma scan_loop_map_filter:
  "scan_loop history ta xs acc = acc @ List.map_filter (get_latest_indicators history ta) xs"
  by (induction xs arbitrary: acc) (auto simp: List.map_filter_simps split: option.splits)

lemma sorted_reverse_desc:
  fixes k :: "'a \<Rightarrow> 'k::linordered_ab_group_add"
  shows "sorted_wrt (\<lambda>a b. k a \<ge> k b) (sorted_reverse k xs)"
proof -
  have "sorted (map (\<lambda>x. - k x) (sort_key (\<lambda>x. - k x) xs))"
    by (rule sorted_sort_key)
  then show ?thesis
    by (simp add: sorted_reverse_def sorted_map)
qed

lemma mset_sorted_reverse: "mset (sorted_reverse k xs) = mset xs"
  by (simp add: sorted_reverse_def)

lemma sorted_reverse_guard: "(if xs \<noteq> [] then sorted_reverse k xs else []) = sorted_reverse k xs"
  by (simp add: sorted_reverse_def)

lemma map_filter_app:
  "List.map_filter f (xs @ ys) = List.map_filter f xs @ List.map_filter f ys"
  by (simp add: List.map_filter_def)

text \<open>
  C7. \<^verbatim>\<open>scan_stocks\<close> returns the results of exactly the instruments for which
  \<^verbatim>\<open>get_latest_indicators\<close> returned one, in input order; an instrument that fails
  leaves the rest of the batch as it is (the scan of a concatenation is the
  concatenation of the scans). The BUY table holds the BUY results by RSI descending
  and the WATCH table the WATCH results by score descending.
\<close>

theorem scan_aggregator:
  "scan_stocks history ta stock_list = List.map_filter (get_latest_indicators history ta) stock_list \<and>
   scan_stocks history ta (xs @ ys) = scan_stocks history ta xs @ scan_stocks history ta ys \<and>
   sorted_wrt (\<lambda>a b. rsi a \<ge> rsi b) (buy_table (display_scan_results results)) \<and>
   mset (buy_table (display_scan_results results)) = mset (filter (\<lambda>r. signal r = BUY) results) \<and>
   sorted_wrt (\<lambda>a b. signal_score a \<ge> signal_score b) (watch_table (display_scan_results results)) \<and>
   mset (watch_table (display_scan_results results)) = mset (filter (\<lambda>r. signal r = WATCH) results)"
  by (simp add: scan_stocks_def scan_loop_map_filter map_filter_app display_scan_results_def
        Let_def sorted_reverse_guard sorted_reverse_desc mset_sorted_reverse del: mset_filter)

section \<open>Properties of the market bias\<close>

lemma us_loop_sum:
  "us_loop xs (s, d) =
     (s + sum_list (map (\<lambda>(n, i). spec_quote_score 1 i) xs),
      d @ concat (map (\<lambda>(n, i). spec_quote_detail n i) xs))"
  by (induction xs arbitrary: s d)
     (auto simp: spec_quote_score_def spec_quote_detail_def split: option.splits)

lemma asia_loop_sum:
  "asia_loop xs (s, d) =
     (s + sum_list (map (\<lambda>(n, i). spec_quote_score 0.5 i) xs),
      d @ concat (map (\<lambda>(n, i). spec_quote_detail n i) xs))"
  by (induction xs arbitrary: s d)
     (auto simp: spec_quote_score_def spec_quote_detail_def split: option.splits)

lemma gift_step_eq: "gift_step gift (s, d) = (s, d @ spec_gift_detail gift)"
  by (simp add: gift_step_def spec_gift_detail_def split: option.splits)

lemma vix_step_eq: "vix_step vix (s, d) = (s + spec_vix_score vix, d @ spec_vix_detail vix)"
  by (simp add: vix_step_def spec_vix_score_def spec_vix_detail_def split: option.splits)

text \<open>
  C2. The score is the sum of one contribution for each primary quote (\<open>+1\<close> or
  \<open>-1\<close>), one for each secondary quote (\<open>+0.5\<close> or \<open>-0.5\<close>) and one for the
  volatility index; an unavailable quote adds neither score nor detail; the auxiliary
  value does not change the score.
\<close>

theorem score_market_additive:
  "score_market us_data asia_data gift vix =
     (sum_list (map (\<lambda>(n, i). spec_quote_score 1 i) us_data) +
      sum_list (map (\<lambda>(n, i). spec_quote_score 0.5 i) asia_data) +
      spec_vix_score vix,
      concat (map (\<lambda>(n, i). spec_quote_detail n i) us_data) @
      concat (map (\<lambda>(n, i). spec_quote_detail n i) asia_data) @
      spec_gift_detail gift @ spec_vix_detail vix) \<and>
   fst (score_market us_data asia_data gift vix) = fst (score_market us_data asia_data gift' vix)"
  by (simp add: score_market_def us_loop_sum asia_loop_sum gift_step_eq vix_step_eq)


text \<open>
  C3. The label is BULLISH exactly when the score is above 1, BEARISH exactly when it is
  below \<open>-1\<close>, NEUTRAL in every other case, so at exactly 1 and exactly \<open>-1\<close>.
\<close>

theorem bias_thresholds:
  "(bias s = BULLISH) = (s > 1) \<and>
   (bias s = BEARISH) = (s < - 1) \<and>
   (bias s = NEUTRAL) = (\<not> s > 1 \<and> \<not> s < - 1) \<and>
   bias 1 = NEUTRAL \<and> bias (- 1) = NEUTRAL"
  by (simp add: bias_def)

subsection \<open>A history of one session\<close>

lemma fetch_loop_out:
  "fetch_loop hist symbols out0 = Inr out \<Longrightarrow> (name, smb) \<in> set symbols \<Longrightarrow>
   hist smb = Inr closes \<Longrightarrow> closes \<noteq> [] \<Longrightarrow> (name, Some (quote_of smb closes)) \<in> set out"
proof (induction symbols arbitrary: out0)
  case Nil
  then show ?case by simp
next
  case (Cons a symbols)
  obtain n s where a: "a = (n, s)" by (cases a)
  have keep: "fetch_loop hist symbols out1 = Inr out \<Longrightarrow> x \<in> set out1 \<Longrightarrow> x \<in> set out" for out1 x
  proof (induction symbols arbitrary: out1)
    case Nil then show ?case by simp
  next
    case (Cons b symbols)
    then show ?case by (cases b) (auto split: sum.splits if_splits)
  qed
  show ?case
  proof (cases "(name, smb) = a")
    case True
    with Cons.prems a show ?thesis
      by (auto split: sum.splits if_splits intro: keep)
  next
    case False
    with Cons.prems a Cons.IH show ?thesis
      by (auto split: sum.splits if_splits)
  qed
qed

lemma quote_of_single:
  "c \<noteq> 0 \<Longrightarrow> quote_of smb [c] = \<lparr>q_symbol = smb, q_last_close = c, q_latest = c, q_pct = Some 0\<rparr>"
  by (simp add: quote_of_def pct_change_def)

text \<open>
  C10, as the code has it. A reference symbol whose history holds exactly one session
  with a close that is not zero gets a quote whose last close and latest price are that
  close and whose change is 0; the quote is available and goes through the non-positive
  branch: \<open>-1\<close> and a "down" detail in the primary loop, \<open>-0.5\<close> in the secondary
  loop.
\<close>

theorem single_session_quote:
  assumes "fetch_yf_symbols hist symbols = Inr out"
    and "(name, smb) \<in> set symbols"
    and "hist smb = Inr [c]"
    and "c \<noteq> 0"
  shows "(name, Some \<lparr>q_symbol = smb, q_last_close = c, q_latest = c, q_pct = Some 0\<rparr>) \<in> set out \<and>
         us_loop [(name, Some \<lparr>q_symbol = smb, q_last_close = c, q_latest = c, q_pct = Some 0\<rparr>)] (s, d)
           = (s - 1, d @ [IndexDown name 0]) \<and>
         asia_loop [(name, Some \<lparr>q_symbol = smb, q_last_close = c, q_latest = c, q_pct = Some 0\<rparr>)] (s, d)
           = (s - 0.5, d @ [IndexDown name 0])"
proof -
  have "(name, Some (quote_of smb [c])) \<in> set out"
    using assms(1-3) fetch_loop_out [of hist symbols "[]" out name smb "[c]"]
    by (simp add: fetch_yf_symbols_def)
  then show ?thesis using assms(4) by (simp add: quote_of_single)
qed

theorem single_session_quote_witness:
  "fetch_yf_symbols (\<lambda>s. Inr [5]) [(''Dow'', ''^DJI'')] =
     Inr [(''Dow'', Some \<lparr>q_symbol = ''^DJI'', q_last_close = 5, q_latest = 5, q_pct = Some 0\<rparr>)] \<and>
   score_market [(''Dow'', Some \<lparr>q_symbol = ''^DJI'', q_last_close = 5, q_latest = 5, q_pct = Some 0\<rparr>)]
     [] None None = (- 1, [IndexDown ''Dow'' 0])"
  using single_session_quote [of "\<lambda>s. Inr [5]" "[(''Dow'', ''^DJI'')]"
     "[(''Dow'', Some \<lparr>q_symbol = ''^DJI'', q_last_close = 5, q_latest = 5, q_pct = Some 0\<rparr>)]"
     "''Dow''" "''^DJI''" 5 0 "[]"]
  by (simp add: fetch_yf_symbols_def quote_of_def pct_change_def score_market_def gift_step_def vix_step_def)

text \<open>
  C10 as stated fails for a single close of exactly zero: the division fails, the change
  is unavailable and the quote adds nothing to the score.
\<close>

theorem single_session_zero_close:
  "q_pct (quote_of ''^DJI'' [0]) = None \<and> q_pct (quote_of ''^DJI'' [0]) \<noteq> Some 0 \<and>
   score_market [(''Dow'', Some (quote_of ''^DJI'' [0]))] [] None None = (0, [])"
  by (simp add: quote_of_def pct_change_def score_market_def gift_step_def vix_step_def)

section \<open>Properties of the gap candidates\<close>

lemma row_loop_mapping:
  "row_loop parse (JDict kvs # rows) candidates =
     row_loop parse rows
       (case row_candidate parse kvs of None \<Rightarrow> candidates | Some c \<Rightarrow> candidates @ [c])"
  by (simp add: row_candidate_def Let_def split: sum.splits)

lemma row_loop_unusable:
  "\<forall>r\<in>set rows. \<exists>kvs. r = JDict kvs \<and> row_candidate parse kvs = None \<Longrightarrow>
   row_loop parse rows candidates = Inr candidates"
proof (induction rows)
  case Nil
  then show ?case by simp
next
  case (Cons r rows)
  then obtain kvs where r: "r = JDict kvs" and u: "row_candidate parse kvs = None"
    by auto
  have "row_loop parse (JDict kvs # rows) candidates = row_loop parse rows candidates"
    by (simp only: row_loop_mapping u option.case)
  moreover have "row_loop parse rows candidates = Inr candidates"
    using Cons by simp
  ultimately show ?case by (simp only: r)
qed

lemma pool_loop_skips:
  "\<forall>s\<in>set pool. \<forall>closes. hist s = Inr closes \<longrightarrow> length closes < 2 \<Longrightarrow>
   pool_loop hist pool candidates = candidates"
  by (induction pool) (auto split: sum.splits)

text \<open>A candidate of the snapshot always has a gap.\<close>

lemma row_candidate_gap: "row_candidate parse kvs = Some c \<Longrightarrow> gap_pct c \<noteq> None"
  by (auto simp: row_candidate_def Let_def pct_change_def split: sum.splits if_splits)

text \<open>
  C8, as the code has it. When every row of the snapshot is a mapping that the loop skips
  (there may be no snapshot and no row at all), and every instrument of the pool has a
  history that fails or holds fewer than two sessions, the snapshot gives no candidate,
  the pool gives none, and the result is the empty list and no exception.
\<close>

theorem unusable_rows_empty_result:
  assumes "\<forall>r\<in>set (snapshot_rows preopen_data). \<exists>kvs. r = JDict kvs \<and> row_candidate parse kvs = None"
    and "\<forall>s\<in>set pool. \<forall>closes. hist s = Inr closes \<longrightarrow> length closes < 2"
  shows "snapshot_candidates parse preopen_data = Inr [] \<and>
         pool_loop hist pool [] = [] \<and>
         analyze_preopen_and_pick_stocks hist parse preopen_data pool top_n = Inr []"
proof -
  have 1: "snapshot_candidates parse preopen_data = Inr []"
    using row_loop_unusable [OF assms(1), of "[]"] by (simp add: snapshot_candidates_def)
  have 2: "pool_loop hist pool [] = []"
    using assms(2) by (rule pool_loop_skips)
  have 3: "analyze_preopen_and_pick_stocks hist parse preopen_data pool top_n = Inr []"
    by (simp add: analyze_preopen_and_pick_stocks_def 1 2 rank_candidates_def)
  show ?thesis using 1 2 3 by (intro conjI)
qed

theorem unusable_rows_empty_result_witness:
  "analyze_preopen_and_pick_stocks (\<lambda>s. Inr [5]) no_parse
     (JList [JDict [(''open'', JNum 5), (''qty'', JNum 10)],
             JDict [(''symbol'', JStr ''A''), (''open'', JStr ''n/a'')]])
     [''TCS.NS''] 6 = Inr []"
  using unusable_rows_empty_result
    [of "JList [JDict [(''open'', JNum 5), (''qty'', JNum 10)],
                JDict [(''symbol'', JStr ''A''), (''open'', JStr ''n/a'')]]"
        no_parse "[''TCS.NS'']" "\<lambda>s. Inr [5]" 6]
  by (simp add: snapshot_rows_def row_candidate_def dict_get_def py_or_def no_parse_def)

text \<open>
  C8 as stated fails when a row of the snapshot is not a mapping: the row is not usable,
  the pool is empty, and the attribute lookup of line 196 raises.
\<close>

theorem non_mapping_row_raises:
  "analyze_preopen_and_pick_stocks no_history no_parse (JList [JNull]) [] 6 = Inl AttributeError \<and>
   analyze_preopen_and_pick_stocks no_history no_parse
     (JDict [(''errors'', JList [JStr ''x''])]) [] 6 = Inl AttributeError"
  by (simp add: analyze_preopen_and_pick_stocks_def snapshot_candidates_def snapshot_rows_def)








text \<open>
  C6 in the snapshot path: the gap of a row is the percentage change when the previous
  close is positive and 0 otherwise.
\<close>

lemma snapshot_row_gap:
  "row_loop parse [JDict kvs] [] = Inr [c] \<Longrightarrow>
   gap_pct c = (if prev_close c > 0 then Some ((preopen c - prev_close c) / prev_close c * 100)
                else Some 0)"
  by (auto simp: Let_def pct_change_def split: sum.splits if_splits)

text \<open>
  C6 in the fallback path: an instrument whose previous close is 0 gets a candidate
  whose gap is missing, not 0.
\<close>

theorem fallback_zero_prev_close:
  "pool_loop (\<lambda>s. Inr [0, 5]) [''ABC.NS''] [] =
     [\<lparr>symbol = JStr ''ABC'', prev_close = 0, preopen = 5, gap_pct = None, qty = None\<rparr>]"
  by (simp add: pct_change_def)

text \<open>With that candidate alone the ranking fails on its \<^verbatim>\<open>gap_pct\<close> column.\<close>

lemma ranking_of_missing_gaps_fails:
  "analyze_preopen_and_pick_stocks (\<lambda>s. Inr [0, 5]) (\<lambda>s. None) JNull [''ABC.NS''] 6 = Inl TypeError"
  by (simp add: pct_change_def analyze_preopen_and_pick_stocks_def snapshot_candidates_def
        rank_candidates_def)

subsection \<open>Ranking\<close>
















text \<open>The ranking completes exactly when no candidate or some gap is there.\<close>

lemma rank_candidates_completes:
  "(\<exists>out. rank_candidates candidates top_n = Inr out) \<longleftrightarrow>
   (candidates = [] \<or> (\<exists>c\<in>set candidates. gap_pct c \<noteq> None))"
  by (auto simp: rank_candidates_def list_all_iff)




end
